theory Spec2Isabelle
  imports Main "HOL-Library.AList"
begin

section \<open>Sparse matrices of \<open>sparse.py\<close>\<close>

text \<open>
  The class \<open>SparseMatrix\<close> keeps a dict of dicts (\<open>self.matrix\<close>: row index to
  column index to value) and two dimensions (\<open>self.numRows\<close>, \<open>self.numCols\<close>).
  Its arithmetic methods build a new object and fill it through \<open>set_element\<close>,
  so objects live in an explicit heap and the methods pass the heap along.
  Indices, dimensions and values are Python integers, modelled as \<open>int\<close>:
  \<open>load_matrix\<close> reads nothing else, and the arithmetic methods keep integers
  integers. A value of another type, which a caller can pass to \<open>set_element\<close>,
  is outside the model.
\<close>

subsection \<open>Exceptions\<close>

datatype error =
    IndexError                \<comment> \<open>list subscript out of range\<close>
  | KeyError int              \<comment> \<open>dict subscript on an absent key\<close>
  | InvalidLiteral string     \<comment> \<open>the \<open>ValueError\<close> of \<open>int(s)\<close>\<close>
  | DigitLimit                \<comment> \<open>the \<open>ValueError\<close> of \<open>str(i)\<close>\<close>
  | OSError                   \<comment> \<open>\<open>open\<close> failed\<close>
  | WrongFormat error         \<comment> \<open>\<open>ValueError(f"Input file has wrong format: {e}")\<close>\<close>
  | IncompatibleSizes         \<comment> \<open>\<open>ValueError("Matrix multiplication not possible with incompatible sizes.")\<close>\<close>

text \<open>A \<open>for\<close> loop whose body may raise: the first exception ends the loop.\<close>

fun for_each :: "('a \<Rightarrow> 's \<Rightarrow> error + 's) \<Rightarrow> 'a list \<Rightarrow> 's \<Rightarrow> error + 's" where
  "for_each body [] s = Inr s"
| "for_each body (x # xs) s =
     (case body x s of Inl e \<Rightarrow> Inl e | Inr s' \<Rightarrow> for_each body xs s')"

subsection \<open>Python dicts\<close>

text \<open>
  A dict keeps its keys in insertion order, and \<open>save_to_file\<close> and \<open>multiply\<close>
  iterate in that order: a dict is an association list. Assigning to a key that
  is present keeps its position, a new key goes to the end, which is what
  \<^const>\<open>AList.update\<close> does. A dict has no key twice (\<open>dict_ok\<close>).
\<close>

type_synonym ('k, 'v) dict = "('k \<times> 'v) list"

definition dict_ok :: "('k, 'v) dict \<Rightarrow> bool" where
  "dict_ok d = distinct (map fst d)"

definition dict_keys :: "('k, 'v) dict \<Rightarrow> 'k list" where
  "dict_keys d = map fst d"

definition dict_contains :: "('k, 'v) dict \<Rightarrow> 'k \<Rightarrow> bool" where
  \<comment> \<open>\<open>k in d\<close>\<close>
  "dict_contains d k = (k \<in> set (map fst d))"

definition dict_get :: "('k, 'v) dict \<Rightarrow> 'k \<Rightarrow> 'v \<Rightarrow> 'v" where
  \<comment> \<open>\<open>d.get(k, dflt)\<close>\<close>
  "dict_get d k dflt = (case map_of d k of None \<Rightarrow> dflt | Some v \<Rightarrow> v)"

definition dict_getitem :: "(int, 'v) dict \<Rightarrow> int \<Rightarrow> error + 'v" where
  \<comment> \<open>\<open>d[k]\<close>\<close>
  "dict_getitem d k = (case map_of d k of None \<Rightarrow> Inl (KeyError k) | Some v \<Rightarrow> Inr v)"

definition dict_setitem :: "('k, 'v) dict \<Rightarrow> 'k \<Rightarrow> 'v \<Rightarrow> ('k, 'v) dict" where
  \<comment> \<open>\<open>d[k] = v\<close>\<close>
  "dict_setitem d k v = AList.update k v d"

definition py_range :: "int \<Rightarrow> int list" where
  \<comment> \<open>\<open>range(n)\<close>: empty when \<open>n \<le> 0\<close>\<close>
  "py_range n = map int [0..<nat n]"

subsection \<open>Objects and the heap\<close>

type_synonym entries = "(int, (int, int) dict) dict"

record SparseMatrix =
  matrix :: entries
  numRows :: int
  numCols :: int

text \<open>
  A reference is an index into the heap; a new object goes to the end, so its
  reference is the length of the heap before. The inner dicts are held by value:
  the code creates each with \<open>{}\<close> and never stores one in two places.
  A method that raises returns its exception and no heap. The loops of
  \<open>multiply\<close> take the keys of a dict when they start; the dict subscripts in
  their bodies read the heap as it is then, and raise \<open>KeyError\<close> on an absent
  key.
\<close>

type_synonym ref = nat
type_synonym heap = "SparseMatrix list"

definition SparseMatrix_init :: "int \<Rightarrow> int \<Rightarrow> heap \<Rightarrow> ref \<times> heap" where
  \<comment> \<open>\<open>SparseMatrix(numRows=r, numCols=c)\<close>, the branch without a file\<close>
  "SparseMatrix_init r c h = (length h, h @ [\<lparr>matrix = [], numRows = r, numCols = c\<rparr>])"

definition get_element :: "heap \<Rightarrow> ref \<Rightarrow> int \<Rightarrow> int \<Rightarrow> int" where
  "get_element h self row col = dict_get (dict_get (matrix (h ! self)) row []) col 0"

definition store_entry :: "entries \<Rightarrow> int \<Rightarrow> int \<Rightarrow> int \<Rightarrow> error + entries" where
  \<comment> \<open>\<open>if row not in m: m[row] = {}\<close> and then \<open>m[row][col] = value\<close>,
      the two statements that \<open>set_element\<close> and \<open>load_matrix\<close> both have\<close>
  "store_entry m row col v =
     (let m1 = (if \<not> dict_contains m row then dict_setitem m row [] else m)
      in case dict_getitem m1 row of
           Inl e \<Rightarrow> Inl e
         | Inr inner \<Rightarrow> Inr (dict_setitem m1 row (dict_setitem inner col v)))"

definition set_element :: "ref \<Rightarrow> int \<Rightarrow> int \<Rightarrow> int \<Rightarrow> heap \<Rightarrow> error + heap" where
  "set_element self row col v h =
     (case store_entry (matrix (h ! self)) row col v of
        Inl e \<Rightarrow> Inl e
      | Inr m \<Rightarrow> Inr (h[self := (h ! self)\<lparr>matrix := m\<rparr>]))"

definition add :: "ref \<Rightarrow> ref \<Rightarrow> heap \<Rightarrow> error + (ref \<times> heap)" where
  "add self other h =
     (let (result, h1) = SparseMatrix_init (numRows (h ! self)) (numCols (h ! self)) h
      in case for_each
           (\<lambda>row h2. for_each
              (\<lambda>col h3. set_element result row col
                 (get_element h3 self row col + get_element h3 other row col) h3)
              (py_range (numCols (h2 ! self))) h2)
           (py_range (numRows (h1 ! self))) h1
         of Inl e \<Rightarrow> Inl e | Inr h4 \<Rightarrow> Inr (result, h4))"

definition subtract :: "ref \<Rightarrow> ref \<Rightarrow> heap \<Rightarrow> error + (ref \<times> heap)" where
  "subtract self other h =
     (let (result, h1) = SparseMatrix_init (numRows (h ! self)) (numCols (h ! self)) h
      in case for_each
           (\<lambda>row h2. for_each
              (\<lambda>col h3. set_element result row col
                 (get_element h3 self row col - get_element h3 other row col) h3)
              (py_range (numCols (h2 ! self))) h2)
           (py_range (numRows (h1 ! self))) h1
         of Inl e \<Rightarrow> Inl e | Inr h4 \<Rightarrow> Inr (result, h4))"

definition dot_product :: "heap \<Rightarrow> ref \<Rightarrow> ref \<Rightarrow> int \<Rightarrow> int \<Rightarrow> int" where
  \<comment> \<open>\<open>sum(self.get_element(row, k) * other.get_element(k, col) for k in range(self.numCols))\<close>\<close>
  "dot_product h self other row col =
     sum_list (map (\<lambda>k. get_element h self row k * get_element h other k col)
                   (py_range (numCols (h ! self))))"

definition multiply :: "ref \<Rightarrow> ref \<Rightarrow> heap \<Rightarrow> error + (ref \<times> heap)" where
  \<comment> \<open>The loops run over the keys of \<open>self.matrix\<close> and of \<open>other.matrix\<close>, both
      of them row indices.\<close>
  "multiply self other h =
     (if numCols (h ! self) \<noteq> numRows (h ! other) then Inl IncompatibleSizes
      else
        let (result, h1) = SparseMatrix_init (numRows (h ! self)) (numCols (h ! other)) h
        in case for_each
             (\<lambda>row h2. for_each
                (\<lambda>col h3.
                   case dict_getitem (matrix (h3 ! self)) row of
                     Inl e \<Rightarrow> Inl e
                   | Inr inner \<Rightarrow>
                       if dict_contains inner col
                       then set_element result row col (dot_product h3 self other row col) h3
                       else Inr h3)
                (dict_keys (matrix (h2 ! other))) h2)
             (dict_keys (matrix (h1 ! self))) h1
           of Inl e \<Rightarrow> Inl e | Inr h4 \<Rightarrow> Inr (result, h4))"

subsection \<open>Python strings and integers\<close>

text \<open>
  A \<open>str\<close> is a list of characters; the model has the code points below 256.
  \<open>isspace\<close> lists the white space among them, which \<open>str.strip\<close> removes.
  \<open>int\<close> skips less: not the four separators \<open>0x1C\<close> to \<open>0x1F\<close>. The decimal
  digits among these code points are \<open>0\<close> to \<open>9\<close>.
\<close>

definition isspace :: "char \<Rightarrow> bool" where
  "isspace c = (of_char c \<in> set [9, 10, 11, 12, 13, 28, 29, 30, 31, 32, 133, 160 :: nat])"

definition int_isspace :: "char \<Rightarrow> bool" where
  "int_isspace c = (of_char c \<in> set [9, 10, 11, 12, 13, 32, 133, 160 :: nat])"

definition isdigit :: "char \<Rightarrow> bool" where
  "isdigit c = (48 \<le> (of_char c :: nat) \<and> (of_char c :: nat) \<le> 57)"

definition digit_value :: "char \<Rightarrow> nat" where
  "digit_value c = of_char c - 48"

definition digit_char :: "nat \<Rightarrow> char" where
  "digit_char d = char_of (48 + d)"

definition strip_with :: "(char \<Rightarrow> bool) \<Rightarrow> string \<Rightarrow> string" where
  \<comment> \<open>without the characters of one kind at both ends\<close>
  "strip_with P s = rev (dropWhile P (rev (dropWhile P s)))"

definition py_strip :: "string \<Rightarrow> string" where
  \<comment> \<open>\<open>s.strip()\<close>\<close>
  "py_strip s = strip_with isspace s"

fun split_from :: "char \<Rightarrow> string \<Rightarrow> string \<Rightarrow> string list" where
  \<comment> \<open>\<open>cur\<close> is the piece read since the last separator\<close>
  "split_from sep cur [] = [cur]"
| "split_from sep cur (c # cs) =
     (if c = sep then cur # split_from sep [] cs else split_from sep (cur @ [c]) cs)"

definition py_split :: "string \<Rightarrow> char \<Rightarrow> string list" where
  \<comment> \<open>\<open>s.split(sep)\<close> for a separator of one character\<close>
  "py_split s sep = split_from sep [] s"

definition list_item :: "'a list \<Rightarrow> nat \<Rightarrow> error + 'a" where
  \<comment> \<open>\<open>xs[i]\<close> for \<open>i \<ge> 0\<close>\<close>
  "list_item xs i = (if i < length xs then Inr (xs ! i) else Inl IndexError)"

text \<open>
  CPython converts between \<open>int\<close> and \<open>str\<close> up to a number of digits only,
  \<open>sys.int_info.default_max_str_digits\<close> unless the interpreter is told
  otherwise; beyond, \<open>str(i)\<close> and \<open>int(s)\<close> raise \<open>ValueError\<close>.
\<close>

definition int_max_str_digits :: nat where
  "int_max_str_digits = 4300"

text \<open>
  \<open>int(s)\<close> in base ten: white space around, one optional sign, then digits, with
  single underscores allowed between two digits; the digits are counted without
  the underscores and with the leading zeros.
\<close>

fun digits_value :: "nat \<Rightarrow> string \<Rightarrow> nat option" where
  "digits_value acc [] = Some acc"
| "digits_value acc [c] = (if isdigit c then Some (10 * acc + digit_value c) else None)"
| "digits_value acc (c # d # cs) =
     (if isdigit c then digits_value (10 * acc + digit_value c) (d # cs)
      else if c = CHR ''_'' \<and> isdigit d then digits_value (10 * acc + digit_value d) cs
      else None)"

definition py_digits :: "string \<Rightarrow> nat option" where
  "py_digits s = (case s of [] \<Rightarrow> None
     | c # cs \<Rightarrow> if isdigit c then digits_value (digit_value c) cs else None)"

definition py_int :: "string \<Rightarrow> error + int" where
  "py_int s =
     (let t = strip_with int_isspace s;
          r = (case t of
                 [] \<Rightarrow> None
               | c # cs \<Rightarrow>
                   if c = CHR ''-'' then map_option (\<lambda>n. - int n) (py_digits cs)
                   else if c = CHR ''+'' then map_option int (py_digits cs)
                   else map_option int (py_digits t))
      in case r of
           None \<Rightarrow> Inl (InvalidLiteral s)
         | Some i \<Rightarrow>
             if int_max_str_digits < length (filter isdigit t) then Inl (InvalidLiteral s)
             else Inr i)"

definition int_literal :: "string \<Rightarrow> bool" where
  \<comment> \<open>the strings that \<open>int\<close> accepts\<close>
  "int_literal s = (case py_int s of Inl e \<Rightarrow> False | Inr i \<Rightarrow> True)"

text \<open>\<open>str(i)\<close>, which is what an f-string writes for an integer.\<close>

fun digits :: "nat \<Rightarrow> string" where
  "digits n = (if n < 10 then [digit_char n] else digits (n div 10) @ [digit_char (n mod 10)])"

declare digits.simps [simp del]

definition decimal :: "int \<Rightarrow> string" where
  "decimal i = (if i < 0 then CHR ''-'' # digits (nat (- i)) else digits (nat i))"

definition py_str :: "int \<Rightarrow> error + string" where
  "py_str i =
     (if int_max_str_digits < length (digits (nat \<bar>i\<bar>)) then Inl DigitLimit
      else Inr (decimal i))"

subsection \<open>Text files\<close>

text \<open>
  A file opened for reading in text mode turns \<open>\r\n\<close> and \<open>\r\<close> into \<open>\n\<close>, and
  gives its lines with the \<open>\n\<close> that ends them. \<open>readline\<close> at the end of the
  file gives the empty string.
\<close>

fun universal_newlines :: "string \<Rightarrow> string" where
  "universal_newlines [] = []"
| "universal_newlines [c] = [if c = CHR 0x0D then CHR 0x0A else c]"
| "universal_newlines (c # d # cs) =
     (if c = CHR 0x0D \<and> d = CHR 0x0A then CHR 0x0A # universal_newlines cs
      else if c = CHR 0x0D then CHR 0x0A # universal_newlines (d # cs)
      else c # universal_newlines (d # cs))"

fun lines_from :: "string \<Rightarrow> string \<Rightarrow> string list" where
  "lines_from cur [] = (if cur = [] then [] else [cur])"
| "lines_from cur (c # cs) =
     (if c = CHR 0x0A then (cur @ [c]) # lines_from [] cs else lines_from (cur @ [c]) cs)"

definition file_lines :: "string \<Rightarrow> string list" where
  "file_lines text = lines_from [] (universal_newlines text)"

definition readline :: "string list \<Rightarrow> nat \<Rightarrow> string" where
  \<comment> \<open>the \<open>n\<close>-th call of \<open>file.readline()\<close>, counted from \<open>0\<close>\<close>
  "readline ls n = (if n < length ls then ls ! n else [])"

subsection \<open>Loading and saving\<close>

definition parse_header :: "string \<Rightarrow> error + int" where
  \<comment> \<open>\<open>int(line.split('=')[1])\<close>\<close>
  "parse_header line =
     (case list_item (py_split line CHR ''='') 1 of Inl e \<Rightarrow> Inl e | Inr tok \<Rightarrow> py_int tok)"

definition parse_entry :: "string \<Rightarrow> error + (int \<times> int \<times> int)" where
  \<comment> \<open>\<open>entry = line.strip()[1:-1].split(',')\<close>, then
      \<open>int(entry[0]), int(entry[1]), int(entry[2])\<close> from left to right\<close>
  "parse_entry line =
     (let entry = py_split (butlast (tl (py_strip line))) CHR '',''
      in case list_item entry 0 of Inl e \<Rightarrow> Inl e | Inr t0 \<Rightarrow>
         case py_int t0 of Inl e \<Rightarrow> Inl e | Inr row \<Rightarrow>
         case list_item entry 1 of Inl e \<Rightarrow> Inl e | Inr t1 \<Rightarrow>
         case py_int t1 of Inl e \<Rightarrow> Inl e | Inr col \<Rightarrow>
         case list_item entry 2 of Inl e \<Rightarrow> Inl e | Inr t2 \<Rightarrow>
         case py_int t2 of Inl e \<Rightarrow> Inl e | Inr v \<Rightarrow> Inr (row, col, v))"

text \<open>
  \<open>read_matrix\<close> is the body of the \<open>try\<close> of \<open>load_matrix\<close>, and \<open>load_matrix\<close>
  the \<open>except\<close> around it, which turns every exception into the error of a wrong
  format. The file is its text, or \<open>None\<close> when it cannot be opened. The
  dimensions that \<open>load_matrix\<close> assigns to \<open>self\<close> are returned with the entries:
  the constructor is the only caller, and its object exists for nobody else
  before it returns.
\<close>

definition read_matrix :: "string option \<Rightarrow> error + (int \<times> int \<times> entries)" where
  "read_matrix file =
     (case file of
        None \<Rightarrow> Inl OSError
      | Some text \<Rightarrow>
          let ls = file_lines text
          in case parse_header (readline ls 0) of Inl e \<Rightarrow> Inl e | Inr rows \<Rightarrow>
             case parse_header (readline ls 1) of Inl e \<Rightarrow> Inl e | Inr cols \<Rightarrow>
             case for_each
                    (\<lambda>line m.
                       if py_strip line \<noteq> []
                       then case parse_entry line of
                              Inl e \<Rightarrow> Inl e
                            | Inr (row, col, v) \<Rightarrow> store_entry m row col v
                       else Inr m)
                    (drop 2 ls) []
             of Inl e \<Rightarrow> Inl e | Inr m \<Rightarrow> Inr (rows, cols, m))"

definition load_matrix :: "string option \<Rightarrow> error + (int \<times> int \<times> entries)" where
  "load_matrix file =
     (case read_matrix file of Inl e \<Rightarrow> Inl (WrongFormat e) | Inr r \<Rightarrow> Inr r)"

definition SparseMatrix_from_file :: "string option \<Rightarrow> heap \<Rightarrow> error + (ref \<times> heap)" where
  \<comment> \<open>\<open>SparseMatrix(matrix_file=path)\<close>\<close>
  "SparseMatrix_from_file file h =
     (case load_matrix file of
        Inl e \<Rightarrow> Inl e
      | Inr (rows, cols, m) \<Rightarrow>
          Inr (length h, h @ [\<lparr>matrix = m, numRows = rows, numCols = cols\<rparr>]))"

definition entry_line :: "int \<Rightarrow> int \<Rightarrow> int \<Rightarrow> error + string" where
  \<comment> \<open>\<open>f"({row}, {col}, {value})\n"\<close>\<close>
  "entry_line row col v =
     (case py_str row of Inl e \<Rightarrow> Inl e | Inr r \<Rightarrow>
      case py_str col of Inl e \<Rightarrow> Inl e | Inr c \<Rightarrow>
      case py_str v of Inl e \<Rightarrow> Inl e | Inr w \<Rightarrow>
      Inr (''('' @ r @ '', '' @ c @ '', '' @ w @ '')'' @ [CHR 0x0A]))"

definition save_to_file :: "heap \<Rightarrow> ref \<Rightarrow> error + string" where
  \<comment> \<open>the text that \<open>save_to_file\<close> writes, when no \<open>write\<close> raises\<close>
  "save_to_file h self =
     (case py_str (numRows (h ! self)) of Inl e \<Rightarrow> Inl e | Inr r \<Rightarrow>
      case py_str (numCols (h ! self)) of Inl e \<Rightarrow> Inl e | Inr c \<Rightarrow>
      for_each
        (\<lambda>row out.
           case dict_getitem (matrix (h ! self)) row of
             Inl e \<Rightarrow> Inl e
           | Inr inner \<Rightarrow>
               for_each
                 (\<lambda>(col, v) out'.
                    case entry_line row col v of
                      Inl e \<Rightarrow> Inl e
                    | Inr l \<Rightarrow> Inr (out' @ l))
                 inner out)
        (dict_keys (matrix (h ! self)))
        (''rows='' @ r @ [CHR 0x0A] @ ''cols='' @ c @ [CHR 0x0A]))"

subsection \<open>Stored entries\<close>

definition entry_keys :: "entries \<Rightarrow> (int \<times> int) list" where
  \<comment> \<open>the key pairs \<open>(row, col)\<close> of the stored entries, in iteration order\<close>
  "entry_keys m = concat (map (\<lambda>(row, inner). map (\<lambda>(col, v). (row, col)) inner) m)"

definition has_entry :: "heap \<Rightarrow> ref \<Rightarrow> int \<Rightarrow> int \<Rightarrow> bool" where
  "has_entry h self row col = ((row, col) \<in> set (entry_keys (matrix (h ! self))))"

definition keys_in_range :: "SparseMatrix \<Rightarrow> bool" where
  \<comment> \<open>the invariant of the data model: every stored key pair lies in the grid\<close>
  "keys_in_range M =
     list_all (\<lambda>(r, c). 0 \<le> r \<and> r < numRows M \<and> 0 \<le> c \<and> c < numCols M)
              (entry_keys (matrix M))"

definition entries_store :: "entries \<Rightarrow> int \<Rightarrow> int \<Rightarrow> int \<Rightarrow> entries" where
  \<comment> \<open>what \<open>store_entry\<close> returns (lemma \<open>store_entry_eq\<close>)\<close>
  "entries_store m row col v =
     AList.update row (AList.update col v (dict_get m row [])) m"

subsection \<open>Predicates of the claims\<close>

definition stored_triples :: "entries \<Rightarrow> (int \<times> int \<times> int) list" where
  \<comment> \<open>the entries in the order in which \<open>save_to_file\<close> writes them\<close>
  "stored_triples m =
     concat (map (\<lambda>row. map (\<lambda>(col, v). (row, col, v)) (dict_get m row [])) (dict_keys m))"

definition no_duplicate_keys :: "SparseMatrix \<Rightarrow> bool" where
  \<comment> \<open>the association lists are dicts: no row twice, no column twice in a row\<close>
  "no_duplicate_keys M =
     (dict_ok (matrix M) \<and> list_all (\<lambda>(row, inner). dict_ok inner) (matrix M))"

definition printable :: "int \<Rightarrow> bool" where
  \<comment> \<open>the integers that \<open>str\<close> converts: at most 4300 digits\<close>
  "printable i = (length (digits (nat \<bar>i\<bar>)) \<le> int_max_str_digits)"

definition digits_within_limit :: "SparseMatrix \<Rightarrow> bool" where
  \<comment> \<open>the dimensions, the indices and the values are all printable\<close>
  "digits_within_limit M =
     (printable (numRows M) \<and> printable (numCols M)
      \<and> list_all (\<lambda>(row, inner). printable row
            \<and> list_all (\<lambda>(col, v). printable col \<and> printable v) inner) (matrix M))"

definition entry_text :: "int \<Rightarrow> int \<Rightarrow> int \<Rightarrow> string" where
  \<comment> \<open>what \<open>entry_line\<close> returns for printable integers (lemma \<open>entry_line_eq\<close>)\<close>
  "entry_text row col v =
     ''('' @ decimal row @ '', '' @ decimal col @ '', '' @ decimal v @ '')'' @ [CHR 0x0A]"

definition malformed_entry :: "string \<Rightarrow> bool" where
  \<comment> \<open>the entry lines that \<open>parse_entry\<close> rejects (lemma \<open>parse_entry_fails_iff\<close>):
      fewer than three pieces between the commas, or one of the first three
      pieces is no integer literal\<close>
  "malformed_entry line =
     (let toks = py_split (butlast (tl (py_strip line))) CHR '',''
      in length toks < 3 \<or> (\<exists>t \<in> set (take 3 toks). \<not> int_literal t))"


section \<open>Properties\<close>

subsection \<open>Storing and reading entries\<close>

lemma dict_get_Cons: "dict_get ((k', d) # m) k x = (if k' = k then d else dict_get m k x)"
  by (simp add: dict_get_def)

lemma store_entry_eq: "store_entry m row col v = Inr (entries_store m row col v)"
proof (cases "row \<in> fst ` set m")
  case True
  then obtain d where d: "map_of m row = Some d"
    by (metis domD dom_map_of_conv_image_fst)
  with True show ?thesis
    by (simp add: store_entry_def entries_store_def dict_contains_def dict_getitem_def
        dict_setitem_def dict_get_def)
next
  case False
  then have n: "map_of m row = None"
    by (simp add: map_of_eq_None_iff)
  with False show ?thesis
    by (simp add: store_entry_def entries_store_def dict_contains_def dict_getitem_def
        dict_setitem_def dict_get_def AList.update_conv')
qed

lemma set_element_eq:
  "set_element self row col v h =
     Inr (h[self := (h ! self)\<lparr>matrix := entries_store (matrix (h ! self)) row col v\<rparr>])"
  by (simp add: set_element_def store_entry_eq)

lemma lookup_store:
  "dict_get (dict_get (entries_store m r c v) r' []) c' 0 =
     (if r' = r \<and> c' = c then v else dict_get (dict_get m r' []) c' 0)"
  by (simp add: entries_store_def dict_get_def AList.update_conv')

lemma entry_keys_store:
  "set (entry_keys (entries_store m r c v)) = insert (r, c) (set (entry_keys m))"
proof (induction m)
  case Nil
  then show ?case by (simp add: entries_store_def entry_keys_def dict_get_def)
next
  case (Cons p m)
  obtain r' d where p: "p = (r', d)" by (cases p)
  show ?case
  proof (cases "r' = r")
    case True
    have "fst ` set (AList.update c v d) = insert c (fst ` set d)"
      by (simp add: AList.dom_update)
    then have "(\<lambda>p. (r, fst p)) ` set (AList.update c v d)
             = insert (r, c) ((\<lambda>p. (r, fst p)) ` set d)"
      by (metis image_image image_insert)
    then have "(\<lambda>(col, v). (r, col)) ` set (AList.update c v d)
             = insert (r, c) ((\<lambda>(col, v). (r, col)) ` set d)"
      by (simp add: case_prod_unfold)
    with True p show ?thesis
      by (simp add: entries_store_def entry_keys_def dict_get_def)
  next
    case False
    with p Cons show ?thesis
      by (auto simp add: entries_store_def entry_keys_def dict_get_def)
  qed
qed

subsection \<open>The loops of the arithmetic methods\<close>

lemma set_py_range: "set (py_range n) = {0..<n}"
proof -
  have "int ` {0..<nat n} = {0..<n}"
  proof (rule set_eqI)
    fix x
    show "x \<in> int ` {0..<nat n} \<longleftrightarrow> x \<in> {0..<n}"
    proof
      assume "x \<in> int ` {0..<nat n}"
      then show "x \<in> {0..<n}" by auto
    next
      assume "x \<in> {0..<n}"
      then have "x = int (nat x)" "nat x \<in> {0..<nat n}" by auto
      then show "x \<in> int ` {0..<nat n}" by (rule image_eqI)
    qed
  qed
  then show ?thesis by (simp add: py_range_def)
qed

lemma get_element_append:
  "self < length h \<Longrightarrow> get_element (h @ [R]) self row col = get_element h self row col"
  by (simp add: get_element_def nth_append)

lemma set_element_fresh:
  "set_element (length h) row col v (h @ [R]) =
     Inr (h @ [R\<lparr>matrix := entries_store (matrix R) row col v\<rparr>])"
  by (simp add: set_element_eq)

text \<open>The loops of add and subtract, for any way of combining the two elements.\<close>

lemma elementwise_cols:
  assumes "self < length h" "other < length h"
  shows "for_each
           (\<lambda>col h3. set_element (length h) row col
              (f (get_element h3 self row col) (get_element h3 other row col)) h3)
           cols (h @ [R])
       = Inr (h @ [R\<lparr>matrix := fold
           (\<lambda>col m. entries_store m row col
              (f (get_element h self row col) (get_element h other row col)))
           cols (matrix R)\<rparr>])"
  using assms
  by (induction cols arbitrary: R) (simp_all add: set_element_fresh get_element_append)

lemma elementwise_rows:
  assumes "self < length h" "other < length h"
  shows "for_each
           (\<lambda>row h2. for_each
              (\<lambda>col h3. set_element (length h) row col
                 (f (get_element h3 self row col) (get_element h3 other row col)) h3)
              (py_range (numCols (h2 ! self))) h2)
           rows (h @ [R])
       = Inr (h @ [R\<lparr>matrix := fold
           (\<lambda>row. fold
              (\<lambda>col m. entries_store m row col
                 (f (get_element h self row col) (get_element h other row col)))
              (py_range (numCols (h ! self))))
           rows (matrix R)\<rparr>])"
  using assms
  by (induction rows arbitrary: R) (simp_all add: elementwise_cols nth_append)

lemma fold_cols_lookup:
  "dict_get (dict_get (fold (\<lambda>col m. entries_store m row col (g col)) cols m) r []) c 0 =
     (if r = row \<and> c \<in> set cols then g c else dict_get (dict_get m r []) c 0)"
  by (induction cols arbitrary: m) (auto simp: lookup_store)

lemma fold_rows_lookup:
  "dict_get (dict_get (fold (\<lambda>row. fold (\<lambda>col m. entries_store m row col (g row col)) cols)
                         rows m) r []) c 0 =
     (if r \<in> set rows \<and> c \<in> set cols then g r c else dict_get (dict_get m r []) c 0)"
  by (induction rows arbitrary: m) (auto simp: fold_cols_lookup)

lemma fold_cols_keys:
  "set (entry_keys (fold (\<lambda>col m. entries_store m row col (g col)) cols m)) =
     {row} \<times> set cols \<union> set (entry_keys m)"
  by (induction cols arbitrary: m) (auto simp: entry_keys_store)

lemma fold_rows_keys:
  "set (entry_keys (fold (\<lambda>row. fold (\<lambda>col m. entries_store m row col (g row col)) cols)
                         rows m)) =
     set rows \<times> set cols \<union> set (entry_keys m)"
  by (induction rows arbitrary: m) (auto simp: fold_cols_keys)


lemma dict_getitem_key:
  "row \<in> set (dict_keys m) \<Longrightarrow> dict_getitem m row = Inr (dict_get m row [])"
proof -
  assume "row \<in> set (dict_keys m)"
  then obtain d where "map_of m row = Some d"
    unfolding dict_keys_def by (metis domD dom_map_of_conv_image_fst set_map)
  then show ?thesis by (simp add: dict_getitem_def dict_get_def)
qed



lemma add_eq:
  assumes "self < length h" "other < length h"
  shows "add self other h = Inr (length h, h @ [\<lparr>matrix = fold
           (\<lambda>row. fold
              (\<lambda>col m. entries_store m row col
                 (get_element h self row col + get_element h other row col))
              (py_range (numCols (h ! self))))
           (py_range (numRows (h ! self))) [],
           numRows = numRows (h ! self), numCols = numCols (h ! self)\<rparr>])"
  using assms
  by (simp add: add_def SparseMatrix_init_def nth_append
      elementwise_rows [where f = "(+)"])

lemma subtract_eq:
  assumes "self < length h" "other < length h"
  shows "subtract self other h = Inr (length h, h @ [\<lparr>matrix = fold
           (\<lambda>row. fold
              (\<lambda>col m. entries_store m row col
                 (get_element h self row col - get_element h other row col))
              (py_range (numCols (h ! self))))
           (py_range (numRows (h ! self))) [],
           numRows = numRows (h ! self), numCols = numCols (h ! self)\<rparr>])"
  using assms
  by (simp add: subtract_def SparseMatrix_init_def nth_append
      elementwise_rows [where f = "(-)"])


lemma entry_keys_Nil: "entry_keys [] = []"
  by (simp add: entry_keys_def)

text \<open>\<open>add\<close> and \<open>subtract\<close> store the positions of the grid and no other.\<close>

lemma add_subtract_keys_in_range:
  assumes "self < length h" "other < length h"
  shows "\<exists>h'. add self other h = Inr (length h, h') \<and> keys_in_range (h' ! length h)"
    and "\<exists>h'. subtract self other h = Inr (length h, h') \<and> keys_in_range (h' ! length h)"
  using assms
  by (auto simp: add_eq subtract_eq keys_in_range_def list_all_iff fold_rows_keys set_py_range
      entry_keys_Nil)

subsection \<open>Claims about the engine\<close>

text \<open>
  C9. For every matrix, row index, column index and value, \<open>0\<close> included:
  \<open>set_element\<close> followed by \<open>get_element\<close> at the same position returns the
  value, and the position is a stored entry afterwards (a zero is stored, the
  key is not removed).
\<close>

theorem set_then_get:
  assumes "self < length h"
  shows "\<exists>h'. set_element self r c v h = Inr h' \<and> get_element h' self r c = v
              \<and> has_entry h' self r c"
  using assms
  by (simp add: set_element_eq get_element_def has_entry_def lookup_store entry_keys_store)

theorem set_then_get_witness:
  "\<exists>h'. set_element 0 1 2 0 [\<lparr>matrix = [(1, [(2, 5)])], numRows = 3, numCols = 3\<rparr>] = Inr h'
        \<and> get_element h' 0 1 2 = 0 \<and> has_entry h' 0 1 2"
  using set_then_get [of 0 "[\<lparr>matrix = [(1, [(2, 5)])], numRows = 3, numCols = 3\<rparr>]" 1 2 0]
  by simp

text \<open>
  C4. For every pair of matrices whose inner dimensions differ
  (\<open>self.numCols \<noteq> other.numRows\<close>), \<open>multiply\<close> raises the error of
  incompatible sizes and returns no matrix.
\<close>

theorem multiply_incompatible:
  assumes "numCols (h ! self) \<noteq> numRows (h ! other)"
  shows "multiply self other h = Inl IncompatibleSizes"
  using assms by (simp add: multiply_def)

theorem multiply_incompatible_witness:
  "multiply 0 1 [\<lparr>matrix = [(0, [(0, 1)])], numRows = 1, numCols = 3\<rparr>,
                 \<lparr>matrix = [(0, [(0, 1)])], numRows = 2, numCols = 1\<rparr>] = Inl IncompatibleSizes"
  using multiply_incompatible [of "[\<lparr>matrix = [(0, [(0, 1)])], numRows = 1, numCols = 3\<rparr>,
                 \<lparr>matrix = [(0, [(0, 1)])], numRows = 2, numCols = 1\<rparr>]" 0 1]
  by simp

text \<open>
  C5. For every pair of matrices, \<open>add\<close> returns a matrix with the rows and
  columns of its first operand in which every position of the grid holds the sum
  of the two elements at that position and is a stored entry, zero sums included.
\<close>

theorem add_grid:
  assumes "self < length h" "other < length h"
  shows "\<exists>res h'. add self other h = Inr (res, h')
           \<and> numRows (h' ! res) = numRows (h ! self)
           \<and> numCols (h' ! res) = numCols (h ! self)
           \<and> (\<forall>row col. 0 \<le> row \<and> row < numRows (h ! self) \<and> 0 \<le> col \<and> col < numCols (h ! self)
                 \<longrightarrow> get_element h' res row col
                       = get_element h self row col + get_element h other row col
                   \<and> has_entry h' res row col)"
  using assms
  by (simp add: add_eq get_element_def has_entry_def fold_rows_lookup fold_rows_keys set_py_range)

theorem add_grid_witness:
  "\<exists>res h'. add 0 1 [\<lparr>matrix = [(0, [(1, 4)])], numRows = 2, numCols = 2\<rparr>,
                      \<lparr>matrix = [(0, [(1, 3)])], numRows = 2, numCols = 2\<rparr>] = Inr (res, h')
      \<and> numRows (h' ! res) = 2 \<and> numCols (h' ! res) = 2
      \<and> get_element h' res 0 1 = 7 \<and> has_entry h' res 0 1
      \<and> get_element h' res 1 0 = 0 \<and> has_entry h' res 1 0"
proof -
  let ?h = "[\<lparr>matrix = [(0, [(1, 4)])], numRows = 2, numCols = 2\<rparr>,
             \<lparr>matrix = [(0, [(1, 3)])], numRows = 2, numCols = 2::int\<rparr>]"
  obtain res h' where r: "add 0 1 ?h = Inr (res, h')"
      "numRows (h' ! res) = numRows (?h ! 0)" "numCols (h' ! res) = numCols (?h ! 0)"
      "\<forall>row col. 0 \<le> row \<and> row < numRows (?h ! 0) \<and> 0 \<le> col \<and> col < numCols (?h ! 0)
          \<longrightarrow> get_element h' res row col = get_element ?h 0 row col + get_element ?h 1 row col
            \<and> has_entry h' res row col"
    using add_grid [of 0 ?h 1] by auto
  from r(4) have "get_element h' res 0 1 = get_element ?h 0 0 1 + get_element ?h 1 0 1
      \<and> has_entry h' res 0 1" by simp
  moreover from r(4) have "get_element h' res 1 0 = get_element ?h 0 1 0 + get_element ?h 1 1 0
      \<and> has_entry h' res 1 0" by simp
  ultimately show ?thesis using r(1,2,3)
    by (simp add: get_element_def dict_get_def)
qed



text \<open>
  C1 asks that \<open>multiply\<close> return, at every position, the dot product of the row
  of the first operand and the column of the second. The code does not: at the
  two matrices below, both two by two, the only product \<open>a[0][1] * b[1][0] = 1\<close>
  belongs at position \<open>(0, 0)\<close>; the loops visit position \<open>(0, 1)\<close> alone (the
  keys of \<open>other.matrix\<close> are its rows, and the position must be stored in
  \<open>self\<close>), store a zero there, and position \<open>(0, 0)\<close> reads back as \<open>0\<close>.
\<close>

theorem multiply_drops_product:
  "multiply 0 1 [\<lparr>matrix = [(0, [(1, 1)])], numRows = 2, numCols = 2\<rparr>,
                 \<lparr>matrix = [(1, [(0, 1)])], numRows = 2, numCols = 2\<rparr>]
     = Inr (2, [\<lparr>matrix = [(0, [(1, 1)])], numRows = 2, numCols = 2\<rparr>,
                \<lparr>matrix = [(1, [(0, 1)])], numRows = 2, numCols = 2\<rparr>,
                \<lparr>matrix = [(0, [(1, 0)])], numRows = 2, numCols = 2\<rparr>])
   \<and> get_element [\<lparr>matrix = [(0, [(1, 1)])], numRows = 2, numCols = 2\<rparr>,
                  \<lparr>matrix = [(1, [(0, 1)])], numRows = 2, numCols = 2\<rparr>,
                  \<lparr>matrix = [(0, [(1, 0)])], numRows = 2, numCols = 2\<rparr>] 2 0 0 = 0
   \<and> dot_product [\<lparr>matrix = [(0, [(1, 1)])], numRows = 2, numCols = 2\<rparr>,
                  \<lparr>matrix = [(1, [(0, 1)])], numRows = 2, numCols = 2\<rparr>] 0 1 0 0 = 1"
  by (simp add: multiply_def SparseMatrix_init_def dict_keys_def dict_getitem_def
      dict_contains_def set_element_def store_entry_def dict_setitem_def dot_product_def
      get_element_def dict_get_def py_range_def upt_rec numeral_2_eq_2)

text \<open>
  C2 asks that the arithmetic methods keep every stored key pair inside the grid
  of the result. \<open>multiply\<close> does not: it takes its column indices from the keys
  of \<open>other.matrix\<close>, which are row indices of \<open>other\<close>. Below, a matrix of one row
  and two columns times a matrix of two rows and one column, both with their keys
  in range, gives a matrix of one row and one column with a stored entry in
  column \<open>1\<close>.
\<close>

theorem multiply_key_out_of_range:
  "keys_in_range \<lparr>matrix = [(0, [(1, 5)])], numRows = 1, numCols = 2\<rparr>
   \<and> keys_in_range \<lparr>matrix = [(1, [(0, 1)])], numRows = 2, numCols = 1\<rparr>
   \<and> multiply 0 1 [\<lparr>matrix = [(0, [(1, 5)])], numRows = 1, numCols = 2\<rparr>,
                   \<lparr>matrix = [(1, [(0, 1)])], numRows = 2, numCols = 1\<rparr>]
     = Inr (2, [\<lparr>matrix = [(0, [(1, 5)])], numRows = 1, numCols = 2\<rparr>,
                \<lparr>matrix = [(1, [(0, 1)])], numRows = 2, numCols = 1\<rparr>,
                \<lparr>matrix = [(0, [(1, 0)])], numRows = 1, numCols = 1\<rparr>])
   \<and> \<not> keys_in_range \<lparr>matrix = [(0, [(1, 0)])], numRows = 1, numCols = 1\<rparr>"
  by (simp add: multiply_def SparseMatrix_init_def dict_keys_def dict_getitem_def
      dict_contains_def set_element_def store_entry_def dict_setitem_def dot_product_def
      get_element_def dict_get_def py_range_def upt_rec numeral_2_eq_2
      keys_in_range_def entry_keys_def)

subsection \<open>Strings and integers\<close>

lemma of_char_digit_char: "d < 10 \<Longrightarrow> (of_char (digit_char d) :: nat) = 48 + d"
  by (simp add: digit_char_def)

lemma isdigit_digit_char: "d < 10 \<Longrightarrow> isdigit (digit_char d)"
  by (simp add: isdigit_def of_char_digit_char)

lemma digit_value_digit_char: "d < 10 \<Longrightarrow> digit_value (digit_char d) = d"
  by (simp add: digit_value_def of_char_digit_char)

lemma digits_small: "n < 10 \<Longrightarrow> digits n = [digit_char n]"
  by (subst digits.simps) simp

lemma digits_large: "\<not> n < 10 \<Longrightarrow> digits n = digits (n div 10) @ [digit_char (n mod 10)]"
  by (subst digits.simps) simp

lemma digits_isdigit: "c \<in> set (digits n) \<Longrightarrow> isdigit c"
proof (induction n arbitrary: c rule: digits.induct)
  case (1 n)
  show ?case
  proof (cases "n < 10")
    case True
    with "1.prems" show ?thesis by (simp add: isdigit_digit_char digits_small)
  next
    case False
    with "1.prems" have "c \<in> set (digits (n div 10)) \<or> c = digit_char (n mod 10)"
      by (auto simp: digits_large)
    with False "1.IH" show ?thesis by (auto simp: isdigit_digit_char)
  qed
qed

lemma digits_nonempty: "digits n \<noteq> []"
  by (subst digits.simps) simp

lemma digits_length_lower: "10 ^ k \<le> n \<Longrightarrow> k < length (digits n)"
proof (induction k arbitrary: n)
  case 0
  then show ?case using digits_nonempty [of n] by (cases "digits n") simp_all
next
  case (Suc k)
  then have "\<not> n < 10" "10 ^ k \<le> n div 10"
    by (auto simp: less_eq_div_iff_mult_less_eq not_less
        intro: order_trans [of 10 "10 * 10 ^ k" n])
  with Suc.IH [of "n div 10"] show ?case
    by (simp add: digits_large)
qed

lemma digits_length_upper: "n < 10 ^ k \<Longrightarrow> 0 < k \<Longrightarrow> length (digits n) \<le> k"
proof (induction k arbitrary: n)
  case 0
  then show ?case by simp
next
  case (Suc k)
  show ?case
  proof (cases "n < 10")
    case True
    then show ?thesis by (simp add: digits_small)
  next
    case False
    with Suc.prems have k: "0 < k" by (cases k) simp_all
    from Suc.prems have "n div 10 < 10 ^ k"
      by (simp add: div_less_iff_less_mult mult.commute)
    with Suc.IH [of "n div 10"] k False show ?thesis
      by (simp add: digits_large)
  qed
qed

lemma digits_value_all_digits:
  "\<forall>c \<in> set cs. isdigit c \<Longrightarrow>
     digits_value acc cs = Some (foldl (\<lambda>a c. 10 * a + digit_value c) acc cs)"
  by (induction acc cs rule: digits_value.induct) auto

lemma py_digits_all_digits:
  assumes "cs \<noteq> []" "\<forall>c \<in> set cs. isdigit c"
  shows "py_digits cs = Some (foldl (\<lambda>a c. 10 * a + digit_value c) 0 cs)"
proof -
  from assms(1) obtain c cs' where cs: "cs = c # cs'" by (cases cs) auto
  with assms(2) show ?thesis
    by (simp add: py_digits_def digits_value_all_digits)
qed

lemma foldl_digits: "foldl (\<lambda>a c. 10 * a + digit_value c) 0 (digits n) = n"
proof (induction n rule: digits.induct)
  case (1 n)
  show ?case
  proof (cases "n < 10")
    case True
    then show ?thesis by (simp add: digit_value_digit_char digits_small)
  next
    case False
    then have "foldl (\<lambda>a c. 10 * a + digit_value c) 0 (digits n)
        = 10 * foldl (\<lambda>a c. 10 * a + digit_value c) 0 (digits (n div 10))
          + digit_value (digit_char (n mod 10))"
      by (simp add: digits_large)
    with False "1.IH" show ?thesis by (simp add: digit_value_digit_char)
  qed
qed

lemma py_digits_digits: "py_digits (digits n) = Some n"
  by (simp add: py_digits_all_digits digits_nonempty digits_isdigit foldl_digits)

lemma strip_with_core:
  assumes "t \<noteq> []" "\<not> P (hd t)" "\<not> P (last t)"
    and "\<forall>c \<in> set a. P c" "\<forall>c \<in> set b. P c"
  shows "strip_with P (a @ t @ b) = t"
proof -
  from assms(1,2) have 1: "dropWhile P (a @ t @ b) = t @ b"
    using assms(4) by (cases t) (simp_all add: dropWhile_append2)
  from assms(1,3) have "dropWhile P (rev t) = rev t"
    by (cases "rev t") (simp_all add: last_rev [symmetric] hd_rev)
  moreover have "dropWhile P (rev b @ rev t) = dropWhile P (rev t)"
    by (rule dropWhile_append2) (use assms(5) in auto)
  ultimately have 2: "dropWhile P (rev b @ rev t) = rev t"
    by simp
  show ?thesis by (simp add: strip_with_def 1 2)
qed

lemma decimal_chars: "c \<in> set (decimal i) \<Longrightarrow> isdigit c \<or> c = CHR ''-''"
  by (auto simp: decimal_def digits_isdigit split: if_splits)

lemma decimal_plain:
  assumes "c \<in> set (decimal i)"
  shows "\<not> int_isspace c" "c \<noteq> CHR '',''" "c \<noteq> CHR ''=''" "c \<noteq> CHR 0x0A" "c \<noteq> CHR 0x0D"
  using decimal_chars [OF assms] by (auto simp: isdigit_def int_isspace_def)

lemma decimal_nonempty: "decimal i \<noteq> []"
  by (simp add: decimal_def digits_nonempty)

lemma decimal_digit_count: "length (filter isdigit (decimal i)) = length (digits (nat \<bar>i\<bar>))"
proof -
  have all: "filter isdigit (digits n) = digits n" for n
    by (simp add: digits_isdigit)
  have "\<not> isdigit (CHR ''-'')" by (simp add: isdigit_def)
  then show ?thesis
    by (cases "i < 0") (simp_all add: decimal_def all)
qed

lemma py_int_decimal:
  assumes "\<forall>c \<in> set a. int_isspace c" "\<forall>c \<in> set b. int_isspace c"
    and "printable i"
  shows "py_int (a @ decimal i @ b) = Inr i"
proof -
  have lim: "\<not> int_max_str_digits < length (filter isdigit (decimal i))"
    using assms(3) by (simp add: decimal_digit_count printable_def)
  have "\<not> int_isspace (hd (decimal i))" "\<not> int_isspace (last (decimal i))"
    using decimal_plain(1) decimal_nonempty by (meson hd_in_set last_in_set)+
  then have s: "strip_with int_isspace (a @ decimal i @ b) = decimal i"
    using assms decimal_nonempty by (simp add: strip_with_core)
  show ?thesis
  proof (cases "i < 0")
    case True
    then show ?thesis
      by (simp only: py_int_def s Let_def lim if_False) (simp add: decimal_def py_digits_digits)
  next
    case False
    obtain c cs where d: "digits (nat i) = c # cs"
      using digits_nonempty by (cases "digits (nat i)") auto
    then have "isdigit c" using digits_isdigit [of c "nat i"] by simp
    then have "c \<noteq> CHR ''-''" "c \<noteq> CHR ''+''" by (auto simp: isdigit_def)
    moreover have "py_digits (c # cs) = Some (nat i)"
      using py_digits_digits [of "nat i"] d by simp
    ultimately show ?thesis using False d
      by (simp only: py_int_def s Let_def lim if_False) (simp add: decimal_def)
  qed
qed

lemma split_from_no_sep: "sep \<notin> set a \<Longrightarrow> split_from sep cur a = [cur @ a]"
  by (induction a arbitrary: cur) auto

lemma split_from_sep:
  "sep \<notin> set a \<Longrightarrow> split_from sep cur (a @ sep # b) = (cur @ a) # split_from sep [] b"
  by (induction a arbitrary: cur) auto

lemma py_split_no_sep: "sep \<notin> set a \<Longrightarrow> py_split a sep = [a]"
  by (simp add: py_split_def split_from_no_sep)

lemma py_split_sep: "sep \<notin> set a \<Longrightarrow> py_split (a @ sep # b) sep = a # py_split b sep"
  by (simp add: py_split_def split_from_sep)

lemma universal_newlines_id: "CHR 0x0D \<notin> set s \<Longrightarrow> universal_newlines s = s"
  by (induction s rule: universal_newlines.induct) auto

lemma lines_from_line:
  "CHR 0x0A \<notin> set a \<Longrightarrow>
     lines_from cur (a @ CHR 0x0A # rest) = (cur @ a @ [CHR 0x0A]) # lines_from [] rest"
  by (induction a arbitrary: cur) auto

lemma lines_from_concat:
  assumes "\<forall>l \<in> set ls. \<exists>a. l = a @ [CHR 0x0A] \<and> CHR 0x0A \<notin> set a"
  shows "lines_from [] (concat ls) = ls"
  using assms
proof (induction ls)
  case Nil
  then show ?case by simp
next
  case (Cons l ls)
  then obtain a where a: "l = a @ [CHR 0x0A]" "CHR 0x0A \<notin> set a" by auto
  have "lines_from [] (concat (l # ls)) = lines_from [] (a @ CHR 0x0A # concat ls)"
    using a by simp
  also have "\<dots> = l # lines_from [] (concat ls)"
    using a by (simp add: lines_from_line)
  finally show ?case using Cons by simp
qed

subsection \<open>Saving and loading\<close>

lemma decimal_free:
  "CHR '','' \<notin> set (decimal i)" "CHR ''='' \<notin> set (decimal i)"
  "CHR 0x0A \<notin> set (decimal i)" "CHR 0x0D \<notin> set (decimal i)"
  using decimal_plain [of _ i] by blast+

lemma isspace_simps: "isspace (CHR '' '')" "isspace (CHR 0x0A)"
  "\<not> isspace (CHR ''('')" "\<not> isspace (CHR '')'')"
  "int_isspace (CHR '' '')" "int_isspace (CHR 0x0A)"
  by (simp_all add: isspace_def int_isspace_def)

lemma parse_header_decimal:
  assumes "CHR ''='' \<notin> set pre" "printable n"
  shows "parse_header (pre @ CHR ''='' # decimal n @ [CHR 0x0A]) = Inr n"
proof -
  have "py_split (pre @ CHR ''='' # decimal n @ [CHR 0x0A]) CHR ''=''
          = [pre, decimal n @ [CHR 0x0A]]"
    using assms(1) by (simp add: py_split_sep py_split_no_sep decimal_free)
  moreover have "py_int ([] @ decimal n @ [CHR 0x0A]) = Inr n"
    by (rule py_int_decimal) (simp_all add: isspace_simps assms(2))
  ultimately show ?thesis
    by (simp add: parse_header_def list_item_def)
qed

lemma py_strip_entry_text:
  "py_strip (entry_text r c v)
     = CHR ''('' # (decimal r @ '', '' @ decimal c @ '', '' @ decimal v) @ '')''"
proof -
  let ?t = "CHR ''('' # (decimal r @ '', '' @ decimal c @ '', '' @ decimal v) @ '')''"
  have "py_strip ([] @ ?t @ [CHR 0x0A]) = ?t"
    unfolding py_strip_def by (rule strip_with_core) (simp_all add: isspace_simps)
  then show ?thesis by (simp add: entry_text_def)
qed

lemma parse_entry_entry_text:
  assumes "printable r" "printable c" "printable v"
  shows "parse_entry (entry_text r c v) = Inr (r, c, v)"
proof -
  have "py_split (CHR '' '' # decimal v) CHR '','' = [CHR '' '' # decimal v]"
    by (rule py_split_no_sep) (simp add: decimal_free)
  moreover have "py_split ((CHR '' '' # decimal c) @ CHR '','' # (CHR '' '' # decimal v)) CHR '',''
          = (CHR '' '' # decimal c) # py_split (CHR '' '' # decimal v) CHR '',''"
    by (rule py_split_sep) (simp add: decimal_free)
  moreover have "py_split (decimal r @ CHR '','' # ((CHR '' '' # decimal c) @ CHR '','' # (CHR '' '' # decimal v)))
           CHR '',''
          = decimal r # py_split ((CHR '' '' # decimal c) @ CHR '','' # (CHR '' '' # decimal v)) CHR '',''"
    by (rule py_split_sep) (simp add: decimal_free)
  ultimately have "py_split (decimal r @ CHR '','' # (CHR '' '' # decimal c) @ CHR '','' # (CHR '' '' # decimal v))
           CHR '',''
          = [decimal r, CHR '' '' # decimal c, CHR '' '' # decimal v]"
    by simp
  then have t: "py_split (butlast (tl (py_strip (entry_text r c v)))) CHR '',''
          = [decimal r, CHR '' '' # decimal c, CHR '' '' # decimal v]"
    by (simp add: py_strip_entry_text butlast_append)
  have 0: "py_int (decimal r) = Inr r"
    using py_int_decimal [of "[]" "[]" r] assms(1) by simp
  have 1: "py_int (CHR '' '' # decimal c) = Inr c"
    using py_int_decimal [of "[CHR '' '']" "[]" c] assms(2) by (simp add: isspace_simps)
  have 2: "py_int (CHR '' '' # decimal v) = Inr v"
    using py_int_decimal [of "[CHR '' '']" "[]" v] assms(3) by (simp add: isspace_simps)
  show ?thesis
    by (simp add: parse_entry_def t list_item_def 0 1 2)
qed

lemma entry_text_not_blank: "py_strip (entry_text r c v) \<noteq> []"
  by (simp add: py_strip_entry_text)

lemma entry_text_is_line:
  "\<exists>a. entry_text r c v = a @ [CHR 0x0A] \<and> CHR 0x0A \<notin> set a"
proof -
  have "entry_text r c v
          = (CHR ''('' # (decimal r @ '', '' @ decimal c @ '', '' @ decimal v) @ '')'') @ [CHR 0x0A]"
    by (simp add: entry_text_def)
  moreover have "CHR 0x0A \<notin> set (CHR ''('' # (decimal r @ '', '' @ decimal c @ '', '' @ decimal v) @ '')'')"
    by (simp add: decimal_free)
  ultimately show ?thesis by blast
qed

lemma entry_text_no_cr: "CHR 0x0D \<notin> set (entry_text r c v)"
  by (simp add: entry_text_def decimal_free)

lemma printable_iff: "printable i \<longleftrightarrow> nat \<bar>i\<bar> < 10 ^ int_max_str_digits"
proof
  assume "printable i"
  then show "nat \<bar>i\<bar> < 10 ^ int_max_str_digits"
    using digits_length_lower [of int_max_str_digits "nat \<bar>i\<bar>"]
    by (auto simp: printable_def not_less [symmetric])
next
  assume "nat \<bar>i\<bar> < 10 ^ int_max_str_digits"
  then show "printable i"
    unfolding printable_def
    by (rule digits_length_upper) (simp add: int_max_str_digits_def)
qed

lemma printable_small: "\<bar>i\<bar> < 10 \<Longrightarrow> printable i"
  by (simp add: printable_def digits_small int_max_str_digits_def)

lemma power_not_printable: "int_max_str_digits \<le> k \<Longrightarrow> \<not> printable (10 ^ k)"
proof -
  assume k: "int_max_str_digits \<le> k"
  have "nat \<bar>(10::int) ^ k\<bar> = 10 ^ k"
    by (simp add: nat_power_eq)
  then have "k < length (digits (nat \<bar>(10::int) ^ k\<bar>))"
    by (simp add: digits_length_lower)
  with k show ?thesis by (simp add: printable_def)
qed

lemma py_str_printable: "printable i \<Longrightarrow> py_str i = Inr (decimal i)"
  by (simp add: py_str_def printable_def)

lemma py_str_not_printable: "\<not> printable i \<Longrightarrow> py_str i = Inl DigitLimit"
  by (simp add: py_str_def printable_def)

lemma entry_line_eq:
  "printable r \<Longrightarrow> printable c \<Longrightarrow> printable v \<Longrightarrow> entry_line r c v = Inr (entry_text r c v)"
  by (simp add: entry_line_def entry_text_def py_str_printable)

lemma save_inner:
  assumes "printable row" "\<forall>(col, v) \<in> set inner. printable col \<and> printable v"
  shows "for_each
           (\<lambda>(col, v) out'. case entry_line row col v of
                Inl e \<Rightarrow> Inl e
              | Inr l \<Rightarrow> Inr (out' @ l))
           inner out
       = Inr (out @ concat (map (\<lambda>(col, v). entry_text row col v) inner))"
  using assms(2)
  by (induction inner arbitrary: out) (auto simp: entry_line_eq assms(1))

lemma save_loop:
  assumes "set rows \<subseteq> set (dict_keys m)"
    and "\<forall>row \<in> set rows. printable row
           \<and> (\<forall>(col, v) \<in> set (dict_get m row []). printable col \<and> printable v)"
  shows "for_each
           (\<lambda>row out. case dict_getitem m row of
                Inl e \<Rightarrow> Inl e
              | Inr inner \<Rightarrow>
                  for_each
                    (\<lambda>(col, v) out'. case entry_line row col v of
                         Inl e \<Rightarrow> Inl e
                       | Inr l \<Rightarrow> Inr (out' @ l))
                    inner out)
           rows out
       = Inr (out @ concat (map (\<lambda>(r, c, v). entry_text r c v)
           (concat (map (\<lambda>row. map (\<lambda>(col, v). (row, col, v)) (dict_get m row [])) rows))))"
  using assms
proof (induction rows arbitrary: out)
  case Nil
  then show ?case by simp
next
  case (Cons row rows)
  have "concat (map (\<lambda>(col, v). entry_text row col v) (dict_get m row []))
      = concat (map (\<lambda>(r, c, v). entry_text r c v)
          (map (\<lambda>(col, v). (row, col, v)) (dict_get m row [])))"
    by (simp add: case_prod_unfold comp_def)
  moreover from Cons.prems have "for_each
           (\<lambda>(col, v) out'. case entry_line row col v of
                Inl e \<Rightarrow> Inl e
              | Inr l \<Rightarrow> Inr (out' @ l))
           (dict_get m row []) out
       = Inr (out @ concat (map (\<lambda>(col, v). entry_text row col v) (dict_get m row [])))"
    by (intro save_inner) simp_all
  ultimately show ?case using Cons
    by (simp add: dict_getitem_key)
qed

lemma within_limit_rows:
  assumes "digits_within_limit M" "row \<in> set (dict_keys (matrix M))"
  shows "printable row
       \<and> (\<forall>(col, v) \<in> set (dict_get (matrix M) row []). printable col \<and> printable v)"
proof -
  from assms(2) obtain d where d: "map_of (matrix M) row = Some d"
    unfolding dict_keys_def by (metis domD dom_map_of_conv_image_fst set_map)
  then have "(row, d) \<in> set (matrix M)" by (rule map_of_SomeD)
  with assms(1) have "printable row \<and> (\<forall>(col, v) \<in> set d. printable col \<and> printable v)"
    by (auto simp: digits_within_limit_def list_all_iff)
  with d show ?thesis by (simp add: dict_get_def)
qed

lemma within_limit_triples:
  assumes "digits_within_limit M"
  shows "\<forall>(r, c, v) \<in> set (stored_triples (matrix M)). printable r \<and> printable c \<and> printable v"
  using within_limit_rows [OF assms]
  by (fastforce simp: stored_triples_def)

lemma save_to_file_eq:
  assumes "digits_within_limit (h ! self)"
  shows "save_to_file h self =
     Inr (''rows='' @ decimal (numRows (h ! self)) @ [CHR 0x0A]
          @ ''cols='' @ decimal (numCols (h ! self)) @ [CHR 0x0A]
          @ concat (map (\<lambda>(r, c, v). entry_text r c v) (stored_triples (matrix (h ! self)))))"
proof -
  from assms have p: "py_str (numRows (h ! self)) = Inr (decimal (numRows (h ! self)))"
      "py_str (numCols (h ! self)) = Inr (decimal (numCols (h ! self)))"
    by (simp_all add: digits_within_limit_def py_str_printable)
  show ?thesis
    unfolding save_to_file_def stored_triples_def p sum.case
    by (subst save_loop) (use within_limit_rows [OF assms] in simp_all)
qed

lemma load_loop:
  assumes "\<forall>(r, c, v) \<in> set E. printable r \<and> printable c \<and> printable v"
  shows "for_each
     (\<lambda>line m.
        if py_strip line \<noteq> []
        then case parse_entry line of
               Inl e \<Rightarrow> Inl e
             | Inr (row, col, v) \<Rightarrow> store_entry m row col v
        else Inr m)
     (map (\<lambda>(r, c, v). entry_text r c v) E) m0
   = Inr (fold (\<lambda>(r, c, v) m. entries_store m r c v) E m0)"
  using assms
  by (induction E arbitrary: m0)
     (auto simp: entry_text_not_blank parse_entry_entry_text store_entry_eq)

lemma file_lines_saved:
  "file_lines (''rows='' @ decimal a @ [CHR 0x0A] @ ''cols='' @ decimal b @ [CHR 0x0A]
               @ concat (map (\<lambda>(r, c, v). entry_text r c v) E))
     = (''rows='' @ decimal a @ [CHR 0x0A]) # (''cols='' @ decimal b @ [CHR 0x0A])
       # map (\<lambda>(r, c, v). entry_text r c v) E"
proof -
  let ?ls = "(''rows='' @ decimal a @ [CHR 0x0A]) # (''cols='' @ decimal b @ [CHR 0x0A])
       # map (\<lambda>(r, c, v). entry_text r c v) E"
  have cr: "CHR 0x0D \<notin> set (concat ?ls)"
    by (auto simp: decimal_free entry_text_no_cr)
  have "\<forall>l \<in> set ?ls. \<exists>a. l = a @ [CHR 0x0A] \<and> CHR 0x0A \<notin> set a"
  proof
    fix l assume "l \<in> set ?ls"
    then consider "l = ''rows='' @ decimal a @ [CHR 0x0A]" | "l = ''cols='' @ decimal b @ [CHR 0x0A]"
      | r c v where "l = entry_text r c v" by auto
    then show "\<exists>a. l = a @ [CHR 0x0A] \<and> CHR 0x0A \<notin> set a"
    proof cases
      case 1
      have "CHR 0x0A \<notin> set (''rows='' @ decimal a)" by (simp add: decimal_free)
      with 1 show ?thesis by (metis append.assoc)
    next
      case 2
      have "CHR 0x0A \<notin> set (''cols='' @ decimal b)" by (simp add: decimal_free)
      with 2 show ?thesis by (metis append.assoc)
    next
      case 3
      then show ?thesis by (simp add: entry_text_is_line)
    qed
  qed
  then have "lines_from [] (concat ?ls) = ?ls" by (rule lines_from_concat)
  moreover from cr have "universal_newlines (concat ?ls) = concat ?ls"
    by (rule universal_newlines_id)
  ultimately have "file_lines (concat ?ls) = ?ls"
    by (simp only: file_lines_def)
  then show ?thesis by simp
qed

lemma fold_store_lookup:
  "dict_get (dict_get (fold (\<lambda>(r, c, v) m. entries_store m r c v) E m0) r []) c 0 =
     (case map_of (rev (map (\<lambda>(r, c, v). ((r, c), v)) E)) (r, c) of
        None \<Rightarrow> dict_get (dict_get m0 r []) c 0
      | Some v \<Rightarrow> v)"
proof (induction E arbitrary: m0)
  case Nil
  then show ?case by simp
next
  case (Cons e E)
  obtain r' c' v' where e: "e = (r', c', v')" by (cases e)
  show ?case
    by (auto simp: e Cons lookup_store map_add_def split: option.splits)
qed

lemma map_of_single_valued:
  assumes "(k, v) \<in> set xs" "\<forall>v'. (k, v') \<in> set xs \<longrightarrow> v' = v"
  shows "map_of xs k = Some v"
proof -
  from assms(1) obtain v' where v': "map_of xs k = Some v'"
    using weak_map_of_SomeI by fastforce
  then have "(k, v') \<in> set xs" by (rule map_of_SomeD)
  with assms(2) v' show ?thesis by simp
qed

lemma stored_triples_mem:
  "((r, c), v) \<in> set (map (\<lambda>(r, c, v). ((r, c), v)) (stored_triples m))
     \<longleftrightarrow> (\<exists>d. map_of m r = Some d \<and> (c, v) \<in> set d)"
proof
  assume "((r, c), v) \<in> set (map (\<lambda>(r, c, v). ((r, c), v)) (stored_triples m))"
  then have "(r, c, v) \<in> set (stored_triples m)" by auto
  then have k: "r \<in> set (dict_keys m)" and d: "(c, v) \<in> set (dict_get m r [])"
    by (auto simp: stored_triples_def)
  from k obtain d' where d': "map_of m r = Some d'"
    unfolding dict_keys_def by (metis domD dom_map_of_conv_image_fst set_map)
  with d show "\<exists>d. map_of m r = Some d \<and> (c, v) \<in> set d"
    by (simp add: dict_get_def)
next
  assume "\<exists>d. map_of m r = Some d \<and> (c, v) \<in> set d"
  then obtain d where d: "map_of m r = Some d" "(c, v) \<in> set d" by blast
  then have "r \<in> set (dict_keys m)"
    unfolding dict_keys_def by (metis map_of_SomeD fst_conv image_eqI set_map)
  moreover from d have "(c, v) \<in> set (dict_get m r [])" by (simp add: dict_get_def)
  ultimately have "(r, c, v) \<in> set (stored_triples m)"
    by (auto simp: stored_triples_def)
  then show "((r, c), v) \<in> set (map (\<lambda>(r, c, v). ((r, c), v)) (stored_triples m))"
    by force
qed

lemma map_of_stored_triples:
  assumes "\<forall>(row, inner) \<in> set m. dict_ok inner"
  shows "map_of (rev (map (\<lambda>(r, c, v). ((r, c), v)) (stored_triples m))) (r, c)
       = (case map_of m r of None \<Rightarrow> None | Some d \<Rightarrow> map_of d c)"
proof (cases "map_of m r")
  case None
  then have "\<forall>v. ((r, c), v) \<notin> set (map (\<lambda>(r, c, v). ((r, c), v)) (stored_triples m))"
    by (simp only: stored_triples_mem) simp
  then have "(r, c) \<notin> fst ` set (rev (map (\<lambda>(r, c, v). ((r, c), v)) (stored_triples m)))"
    by force
  then have "map_of (rev (map (\<lambda>(r, c, v). ((r, c), v)) (stored_triples m))) (r, c) = None"
    by (simp add: map_of_eq_None_iff)
  with None show ?thesis by simp
next
  case (Some d)
  then have "(r, d) \<in> set m" by (rule map_of_SomeD)
  with assms have dd: "distinct (map fst d)" by (auto simp: dict_ok_def)
  show ?thesis
  proof (cases "map_of d c")
    case None
    then have "\<forall>v. (c, v) \<notin> set d" by (metis weak_map_of_SomeI option.distinct(1))
    with Some have "\<forall>v. ((r, c), v) \<notin> set (map (\<lambda>(r, c, v). ((r, c), v)) (stored_triples m))"
      by (simp only: stored_triples_mem) simp
    then have "(r, c) \<notin> fst ` set (rev (map (\<lambda>(r, c, v). ((r, c), v)) (stored_triples m)))"
      by force
    then have "map_of (rev (map (\<lambda>(r, c, v). ((r, c), v)) (stored_triples m))) (r, c) = None"
      by (simp add: map_of_eq_None_iff)
    with Some None show ?thesis by simp
  next
    case (Some v)
    have in_d: "(c, v') \<in> set d \<longleftrightarrow> v' = v" for v'
      using map_of_eq_Some_iff [OF dd, of c v'] Some by auto
    let ?xs = "rev (map (\<lambda>(r, c, v). ((r, c), v)) (stored_triples m))"
    have mem: "\<And>v'. ((r, c), v') \<in> set ?xs \<longleftrightarrow> v' = v"
      using stored_triples_mem [of r c _ m] \<open>map_of m r = Some d\<close> in_d by simp
    have "map_of ?xs (r, c) = Some v"
      by (rule map_of_single_valued) (simp_all only: mem, simp_all)
    with Some \<open>map_of m r = Some d\<close> show ?thesis by simp
  qed
qed

lemma loaded_lookup:
  assumes "\<forall>(row, inner) \<in> set m. dict_ok inner"
  shows "dict_get (dict_get (fold (\<lambda>(r, c, v) m. entries_store m r c v) (stored_triples m) []) r []) c 0
       = dict_get (dict_get m r []) c 0"
  by (simp only: fold_store_lookup map_of_stored_triples [OF assms])
     (simp add: dict_get_def split: option.splits)


lemma int_literal_iff: "int_literal s \<longleftrightarrow> (\<exists>i. py_int s = Inr i)"
  by (cases "py_int s") (simp_all add: int_literal_def)

lemma not_int_literal_iff: "\<not> int_literal s \<longleftrightarrow> (\<exists>e. py_int s = Inl e)"
  by (cases "py_int s") (simp_all add: int_literal_def)

lemma tokens_cases:
  obtains "toks = []" | a where "toks = [a]" | a b where "toks = [a, b]"
  | a b c more where "toks = a # b # c # more"
proof (cases toks)
  case Nil
  then show ?thesis using that by simp
next
  case c1: (Cons a r1)
  show ?thesis
  proof (cases r1)
    case Nil
    with c1 show ?thesis using that by simp
  next
    case c2: (Cons b r2)
    show ?thesis
    proof (cases r2)
      case Nil
      with c1 c2 show ?thesis using that by simp
    next
      case (Cons c more)
      with c1 c2 show ?thesis using that by simp
    qed
  qed
qed

lemma parse_entry_fails_iff:
  "(\<exists>e. parse_entry line = Inl e) \<longleftrightarrow> malformed_entry line"
proof -
  define toks where "toks = py_split (butlast (tl (py_strip line))) CHR '',''"
  have pe: "parse_entry line =
     (case list_item toks 0 of Inl e \<Rightarrow> Inl e | Inr t0 \<Rightarrow>
      case py_int t0 of Inl e \<Rightarrow> Inl e | Inr row \<Rightarrow>
      case list_item toks 1 of Inl e \<Rightarrow> Inl e | Inr t1 \<Rightarrow>
      case py_int t1 of Inl e \<Rightarrow> Inl e | Inr col \<Rightarrow>
      case list_item toks 2 of Inl e \<Rightarrow> Inl e | Inr t2 \<Rightarrow>
      case py_int t2 of Inl e \<Rightarrow> Inl e | Inr v \<Rightarrow> Inr (row, col, v))"
    unfolding parse_entry_def toks_def Let_def ..
  have me: "malformed_entry line
      \<longleftrightarrow> length toks < 3 \<or> (\<exists>t \<in> set (take 3 toks). \<not> int_literal t)"
    unfolding malformed_entry_def toks_def Let_def ..
  show ?thesis
  proof (cases toks rule: tokens_cases)
    case 1
    then show ?thesis unfolding pe me by (simp add: list_item_def)
  next
    case (2 a)
    then show ?thesis unfolding pe me
      by (cases "py_int a") (simp_all add: list_item_def)
  next
    case (3 a b)
    then show ?thesis unfolding pe me
      by (cases "py_int a"; cases "py_int b") (simp_all add: list_item_def)
  next
    case (4 a b c more)
    then show ?thesis unfolding pe me
      by (cases "py_int a"; cases "py_int b"; cases "py_int c")
         (simp_all add: list_item_def int_literal_def numeral_3_eq_3)
  qed
qed

lemma load_loop_fails:
  assumes "line \<in> set ls" "py_strip line \<noteq> []" "parse_entry line = Inl e0"
  shows "\<exists>e. for_each
           (\<lambda>line m.
              if py_strip line \<noteq> []
              then case parse_entry line of
                     Inl e \<Rightarrow> Inl e
                   | Inr (row, col, v) \<Rightarrow> store_entry m row col v
              else Inr m)
           ls m = Inl e"
  using assms(1)
proof (induction ls arbitrary: m)
  case Nil
  then show ?case by simp
next
  case (Cons l ls)
  show ?case
  proof (cases "l = line")
    case True
    with assms(2,3) show ?thesis by simp
  next
    case False
    with Cons.prems have "line \<in> set ls" by simp
    with Cons.IH show ?thesis
      by (auto split: sum.splits)
  qed
qed

lemma read_matrix_fails:
  assumes "line \<in> set (drop 2 (file_lines text))" "py_strip line \<noteq> []"
    "parse_entry line = Inl e0"
  shows "\<exists>e. read_matrix (Some text) = Inl e"
proof -
  from load_loop_fails [OF assms, of "[]"] obtain e where
    "for_each
           (\<lambda>line m.
              if py_strip line \<noteq> []
              then case parse_entry line of
                     Inl e \<Rightarrow> Inl e
                   | Inr (row, col, v) \<Rightarrow> store_entry m row col v
              else Inr m)
           (drop 2 (file_lines text)) [] = Inl e" by blast
  then show ?thesis
    by (simp add: read_matrix_def Let_def split: sum.splits)
qed

lemma load_fails:
  assumes "read_matrix file = Inl e"
  shows "load_matrix file = Inl (WrongFormat e)"
    and "SparseMatrix_from_file file h = Inl (WrongFormat e)"
  using assms by (simp_all add: load_matrix_def SparseMatrix_from_file_def)


lemma parse_header_no_eq: "CHR ''='' \<notin> set l \<Longrightarrow> parse_header l = Inl IndexError"
  by (simp add: parse_header_def py_split_no_sep list_item_def)

lemma parse_header_value:
  assumes "CHR ''='' \<notin> set pre" "CHR ''='' \<notin> set val" "rest = [] \<or> hd rest = CHR ''=''"
  shows "parse_header (pre @ CHR ''='' # val @ rest) = py_int val"
proof -
  have 1: "py_split (pre @ CHR ''='' # val @ rest) CHR ''='' = pre # py_split (val @ rest) CHR ''=''"
    using assms(1) by (rule py_split_sep)
  have "\<exists>more. py_split (val @ rest) CHR ''='' = val # more"
  proof (cases rest)
    case Nil
    with assms(2) show ?thesis by (simp add: py_split_no_sep)
  next
    case (Cons c rest')
    with assms(3) have "rest = CHR ''='' # rest'" by simp
    with assms(2) show ?thesis by (simp add: py_split_sep)
  qed
  with 1 show ?thesis
    by (auto simp: parse_header_def list_item_def)
qed

lemma read_matrix_header2:
  assumes "parse_header (readline (file_lines text) 1) = Inl e0"
  shows "\<exists>e. read_matrix (Some text) = Inl e"
  using assms by (simp add: read_matrix_def Let_def split: sum.splits)


lemma save_unprintable_value:
  assumes "\<not> printable v"
  shows "save_to_file [\<lparr>matrix = [(0, [(0, v)])], numRows = 1, numCols = 1\<rparr>] 0 = Inl DigitLimit"
proof -
  have "py_str 1 = Inr (decimal 1)" "py_str 0 = Inr (decimal 0)"
    by (simp_all add: py_str_printable printable_small)
  then show ?thesis
    using py_str_not_printable [OF assms]
    by (simp add: save_to_file_def dict_keys_def dict_getitem_def entry_line_def)
qed

lemma single_entry_no_duplicate:
  "no_duplicate_keys \<lparr>matrix = [(r, [(c, v)])], numRows = a, numCols = b\<rparr>"
  by (simp add: no_duplicate_keys_def dict_ok_def)

lemmas eval_defs = load_matrix_def read_matrix_def file_lines_def readline_def parse_header_def
   list_item_def py_split_def py_int_def py_strip_def strip_with_def isspace_def int_isspace_def
   py_digits_def isdigit_def
   digit_value_def parse_entry_def store_entry_def dict_contains_def dict_setitem_def
   dict_getitem_def SparseMatrix_from_file_def int_literal_def malformed_entry_def
   int_max_str_digits_def

subsection \<open>Claims about the codec\<close>

text \<open>
  C3, amended. For every matrix of integers with no duplicate keys, whose
  dimensions, indices and values have at most 4300 digits each, loading the text
  that \<open>save_to_file\<close> writes gives a matrix with the same number of rows, the
  same number of columns and the same element at every position (at every pair
  of integers, so at every position of the grid).
\<close>

theorem save_load_roundtrip:
  assumes "self < length h" "no_duplicate_keys (h ! self)" "digits_within_limit (h ! self)"
  shows "\<exists>text res h2.
           save_to_file h self = Inr text
         \<and> SparseMatrix_from_file (Some text) h1 = Inr (res, h2)
         \<and> numRows (h2 ! res) = numRows (h ! self)
         \<and> numCols (h2 ! res) = numCols (h ! self)
         \<and> (\<forall>r c. get_element h2 res r c = get_element h self r c)"
proof -
  let ?M = "h ! self"
  let ?text = "''rows='' @ decimal (numRows ?M) @ [CHR 0x0A]
          @ ''cols='' @ decimal (numCols ?M) @ [CHR 0x0A]
          @ concat (map (\<lambda>(r, c, v). entry_text r c v) (stored_triples (matrix ?M)))"
  let ?m = "fold (\<lambda>(r, c, v) m. entries_store m r c v) (stored_triples (matrix ?M)) []"
  from assms(2) have inner: "\<forall>(row, inner) \<in> set (matrix ?M). dict_ok inner"
    by (simp add: no_duplicate_keys_def list_all_iff)
  let ?E = "stored_triples (matrix ?M)"
  let ?l0 = "''rows='' @ decimal (numRows ?M) @ [CHR 0x0A]"
  let ?l1 = "''cols='' @ decimal (numCols ?M) @ [CHR 0x0A]"
  from assms(3) have pr: "printable (numRows ?M)" "printable (numCols ?M)"
    by (simp_all add: digits_within_limit_def)
  have rows: "parse_header ?l0 = Inr (numRows ?M)"
    using parse_header_decimal [of "''rows''" "numRows ?M"] pr by simp
  have cols: "parse_header ?l1 = Inr (numCols ?M)"
    using parse_header_decimal [of "''cols''" "numCols ?M"] pr by simp
  have ll: "for_each
     (\<lambda>line m.
        if py_strip line \<noteq> []
        then case parse_entry line of
               Inl e \<Rightarrow> Inl e
             | Inr (row, col, v) \<Rightarrow> store_entry m row col v
        else Inr m)
     (map (\<lambda>(r, c, v). entry_text r c v) ?E) [] = Inr ?m"
    by (rule load_loop) (rule within_limit_triples [OF assms(3)])
  have ls: "file_lines ?text = ?l0 # ?l1 # map (\<lambda>(r, c, v). entry_text r c v) ?E"
    by (rule file_lines_saved)
  have r0: "readline (?l0 # ?l1 # map (\<lambda>(r, c, v). entry_text r c v) ?E) 0 = ?l0"
    by (simp add: readline_def)
  have r1: "readline (?l0 # ?l1 # map (\<lambda>(r, c, v). entry_text r c v) ?E) 1 = ?l1"
    by (simp add: readline_def)
  have d2: "drop 2 (?l0 # ?l1 # map (\<lambda>(r, c, v). entry_text r c v) ?E)
              = map (\<lambda>(r, c, v). entry_text r c v) ?E"
    by simp
  have "read_matrix (Some ?text) = Inr (numRows ?M, numCols ?M, ?m)"
    by (simp only: read_matrix_def option.case Let_def ls r0 r1 d2 rows cols ll
        sum.case)
  then have "SparseMatrix_from_file (Some ?text) h1
      = Inr (length h1, h1 @ [\<lparr>matrix = ?m, numRows = numRows ?M, numCols = numCols ?M\<rparr>])"
    by (simp add: SparseMatrix_from_file_def load_matrix_def)
  moreover have "save_to_file h self = Inr ?text"
    using assms(3) by (rule save_to_file_eq)
  moreover have "\<forall>r c. get_element (h1 @ [\<lparr>matrix = ?m, numRows = numRows ?M, numCols = numCols ?M\<rparr>])
      (length h1) r c = get_element h self r c"
    by (simp add: get_element_def loaded_lookup [OF inner])
  ultimately show ?thesis by simp
qed

theorem save_load_roundtrip_witness:
  "\<exists>text res h2.
      save_to_file [\<lparr>matrix = [(1, [(1, - 7), (0, 0)]), (0, [(0, 5)])], numRows = 2, numCols = 2\<rparr>] 0
        = Inr text
    \<and> SparseMatrix_from_file (Some text) [] = Inr (res, h2)
    \<and> numRows (h2 ! res) = 2 \<and> numCols (h2 ! res) = 2
    \<and> get_element h2 res 1 1 = - 7 \<and> get_element h2 res 0 1 = 0"
proof -
  let ?h = "[\<lparr>matrix = [(1, [(1, - 7), (0, 0)]), (0, [(0, 5)])], numRows = 2, numCols = 2::int\<rparr>]"
  have 1: "0 < length ?h" by simp
  have 2: "no_duplicate_keys (?h ! 0)"
    by (simp add: no_duplicate_keys_def dict_ok_def)
  have 3: "digits_within_limit (?h ! 0)"
    by (simp add: digits_within_limit_def printable_small)
  from save_load_roundtrip [OF 1 2 3, of "[]"] obtain saved res h2 where
    r: "save_to_file ?h 0 = Inr saved" "SparseMatrix_from_file (Some saved) [] = Inr (res, h2)"
      "numRows (h2 ! res) = numRows (?h ! 0)" "numCols (h2 ! res) = numCols (?h ! 0)"
      "\<forall>r c. get_element h2 res r c = get_element ?h 0 r c"
    by blast
  from r(5) have "get_element h2 res 1 1 = - 7" "get_element h2 res 0 1 = 0"
    by (simp_all add: get_element_def dict_get_def)
  with r(1-4) show ?thesis by auto
qed

text \<open>
  C3 as stated is about every matrix. \<open>str\<close> converts no integer of more than
  4300 digits: at the matrix below, whose one value is \<open>10 ^ 4300\<close> (what \<open>add\<close>
  makes of \<open>10 ^ 4300 - 1\<close> and \<open>1\<close>), \<open>save_to_file\<close> raises when it formats
  the entry, and there is no text of the matrix to load.
\<close>

theorem save_digit_limit_counterexample:
  "no_duplicate_keys \<lparr>matrix = [(0, [(0, 10 ^ 4300)])], numRows = 1, numCols = 1\<rparr>
   \<and> save_to_file [\<lparr>matrix = [(0, [(0, 10 ^ 4300)])], numRows = 1, numCols = 1\<rparr>] 0
       = Inl DigitLimit"
proof -
  have "\<not> printable (10 ^ 4300)"
    by (rule power_not_printable) (simp add: int_max_str_digits_def)
  then have "save_to_file [\<lparr>matrix = [(0, [(0, 10 ^ 4300)])], numRows = 1, numCols = 1\<rparr>] 0
       = Inl DigitLimit"
    by (rule save_unprintable_value)
  moreover have "no_duplicate_keys \<lparr>matrix = [(0, [(0, 10 ^ 4300)])], numRows = 1, numCols = 1\<rparr>"
    by (rule single_entry_no_duplicate)
  ultimately show ?thesis by (rule conjI [rotated])
qed

text \<open>
  A value that is no integer is outside the model. The code writes it as \<open>str\<close>
  gives it, \<open>0.5\<close> for the float one half, and loading that text fails.
\<close>

lemma float_text_rejected:
  "load_matrix (Some ''rows=1\<newline>cols=1\<newline>(0, 0, 0.5)\<newline>'')
     = Inl (WrongFormat (InvalidLiteral '' 0.5''))"
  by (simp add: eval_defs)

text \<open>
  C6, amended. An entry line is what is left after the two header lines and is
  not blank. When such a line, stripped and without its first and its last
  character, splits at the commas into fewer than three pieces, or one of its
  first three pieces is no integer literal, loading fails with the error of a
  wrong format and no matrix is returned.
\<close>

theorem malformed_entry_rejected:
  assumes "line \<in> set (drop 2 (file_lines text))" "py_strip line \<noteq> []"
    "malformed_entry line"
  shows "\<exists>e. load_matrix (Some text) = Inl (WrongFormat e)
           \<and> SparseMatrix_from_file (Some text) h = Inl (WrongFormat e)"
proof -
  from assms(3) obtain e0 where "parse_entry line = Inl e0"
    using parse_entry_fails_iff by blast
  with assms(1,2) obtain e where "read_matrix (Some text) = Inl e"
    using read_matrix_fails by blast
  then show ?thesis by (auto simp: load_fails)
qed

theorem malformed_entry_rejected_witness:
  "\<exists>e. load_matrix (Some ''rows=2\<newline>cols=2\<newline>(0, 0)\<newline>'') = Inl (WrongFormat e)
     \<and> SparseMatrix_from_file (Some ''rows=2\<newline>cols=2\<newline>(0, 0)\<newline>'') []
         = Inl (WrongFormat e)"
proof -
  let ?text = "''rows=2\<newline>cols=2\<newline>(0, 0)\<newline>''"
  have 1: "''(0, 0)\<newline>'' \<in> set (drop 2 (file_lines ?text))"
    by (simp add: file_lines_def)
  have 2: "py_strip ''(0, 0)\<newline>'' \<noteq> []"
    by (simp add: py_strip_def strip_with_def isspace_def)
  have 3: "malformed_entry ''(0, 0)\<newline>''"
    by (simp add: eval_defs)
  show ?thesis
    using malformed_entry_rejected [OF 1 2 3, of "[]"] .
qed

text \<open>
  C6 as stated also asks that a line delimited by characters other than
  parentheses, and a line with more than three pieces, be rejected. The code
  drops the first and the last character whatever they are and reads the first
  three pieces only: both lines below load.
\<close>

theorem entry_delimiters_counterexample:
  "SparseMatrix_from_file (Some ''rows=2\<newline>cols=2\<newline>[0, 0, 5]\<newline>(1, 1, 7, 8)\<newline>'') []
     = Inr (0, [\<lparr>matrix = [(0, [(0, 5)]), (1, [(1, 7)])], numRows = 2, numCols = 2\<rparr>])"
  by (simp add: eval_defs)

text \<open>
  C7, amended. When the second line of the file has no \<open>=\<close>, or the text between
  its first \<open>=\<close> and its next \<open>=\<close> (or its end) is no integer literal, loading
  fails with the error of a wrong format and no matrix is returned.
\<close>

theorem second_line_rejected:
  assumes "CHR ''='' \<notin> set (readline (file_lines text) 1)
         \<or> (\<exists>pre val rest. readline (file_lines text) 1 = pre @ CHR ''='' # val @ rest
               \<and> CHR ''='' \<notin> set pre \<and> CHR ''='' \<notin> set val
               \<and> (rest = [] \<or> hd rest = CHR ''='') \<and> \<not> int_literal val)"
  shows "\<exists>e. load_matrix (Some text) = Inl (WrongFormat e)
           \<and> SparseMatrix_from_file (Some text) h = Inl (WrongFormat e)"
proof -
  from assms have "\<exists>e0. parse_header (readline (file_lines text) 1) = Inl e0"
  proof
    assume "CHR ''='' \<notin> set (readline (file_lines text) 1)"
    then show ?thesis by (simp add: parse_header_no_eq)
  next
    assume "\<exists>pre val rest. readline (file_lines text) 1 = pre @ CHR ''='' # val @ rest
               \<and> CHR ''='' \<notin> set pre \<and> CHR ''='' \<notin> set val
               \<and> (rest = [] \<or> hd rest = CHR ''='') \<and> \<not> int_literal val"
    then obtain pre val rest where l: "readline (file_lines text) 1 = pre @ CHR ''='' # val @ rest"
      and p: "CHR ''='' \<notin> set pre" "CHR ''='' \<notin> set val" "rest = [] \<or> hd rest = CHR ''=''"
      and n: "\<not> int_literal val" by blast
    from n obtain e0 where "py_int val = Inl e0" using not_int_literal_iff by blast
    with l p show ?thesis by (simp add: parse_header_value)
  qed
  then obtain e where "read_matrix (Some text) = Inl e"
    using read_matrix_header2 by blast
  then show ?thesis by (auto simp: load_fails)
qed

theorem second_line_rejected_witness:
  "\<exists>e. load_matrix (Some ''rows=2\<newline>cols=two\<newline>(0, 0, 5)\<newline>'') = Inl (WrongFormat e)
     \<and> SparseMatrix_from_file (Some ''rows=2\<newline>cols=two\<newline>(0, 0, 5)\<newline>'') []
         = Inl (WrongFormat e)"
proof -
  let ?text = "''rows=2\<newline>cols=two\<newline>(0, 0, 5)\<newline>''"
  have l: "readline (file_lines ?text) 1 = ''cols'' @ CHR ''='' # ''two\<newline>'' @ []"
    by (simp add: file_lines_def readline_def)
  have n: "\<not> int_literal ''two\<newline>''"
    by (simp add: eval_defs)
  have "\<exists>pre val rest. readline (file_lines ?text) 1 = pre @ CHR ''='' # val @ rest
               \<and> CHR ''='' \<notin> set pre \<and> CHR ''='' \<notin> set val
               \<and> (rest = [] \<or> hd rest = CHR ''='') \<and> \<not> int_literal val"
    using l n by (intro exI [of _ "''cols''"] exI [of _ "''two\<newline>''"] exI [of _ "[]"]) simp
  then show ?thesis
    using second_line_rejected [of ?text "[]"] by blast
qed

text \<open>
  C7 as stated asks that a second line not prefixed with \<open>cols=\<close> be rejected.
  The code never looks at what stands before the \<open>=\<close>: the file below loads, with
  three columns.
\<close>

theorem second_line_prefix_counterexample:
  "SparseMatrix_from_file (Some ''rows=2\<newline>columns=3\<newline>(0, 0, 5)\<newline>'') []
     = Inr (0, [\<lparr>matrix = [(0, [(0, 5)])], numRows = 2, numCols = 3\<rparr>])"
  by (simp add: eval_defs)

text \<open>
  C10. The three pieces of an entry line are read with \<open>int\<close>: when the third
  piece of an entry line, the value, is no integer literal (as \<open>3.5\<close>), loading
  fails with the error of a wrong format. The values of a loaded matrix are
  integers by their type.
\<close>

theorem non_integer_value_rejected:
  assumes "line \<in> set (drop 2 (file_lines text))" "py_strip line \<noteq> []"
    and "2 < length (py_split (butlast (tl (py_strip line))) CHR '','')"
    and "\<not> int_literal (py_split (butlast (tl (py_strip line))) CHR '','' ! 2)"
  shows "\<exists>e. load_matrix (Some text) = Inl (WrongFormat e)
           \<and> SparseMatrix_from_file (Some text) h = Inl (WrongFormat e)"
proof -
  let ?toks = "py_split (butlast (tl (py_strip line))) CHR '',''"
  from assms(3) have "take 3 ?toks ! 2 \<in> set (take 3 ?toks)"
    by (intro nth_mem) simp
  then have "?toks ! 2 \<in> set (take 3 ?toks)" by simp
  with assms(4) have "malformed_entry line"
    by (auto simp: malformed_entry_def Let_def)
  then obtain e0 where "parse_entry line = Inl e0"
    using parse_entry_fails_iff by blast
  with assms(1,2) obtain e where "read_matrix (Some text) = Inl e"
    using read_matrix_fails by blast
  then show ?thesis by (auto simp: load_fails)
qed

theorem non_integer_value_rejected_witness:
  "\<exists>e. load_matrix (Some ''rows=2\<newline>cols=2\<newline>(0, 0, 3.5)\<newline>'') = Inl (WrongFormat e)
     \<and> SparseMatrix_from_file (Some ''rows=2\<newline>cols=2\<newline>(0, 0, 3.5)\<newline>'') []
         = Inl (WrongFormat e)"
proof -
  let ?text = "''rows=2\<newline>cols=2\<newline>(0, 0, 3.5)\<newline>''"
  have 1: "''(0, 0, 3.5)\<newline>'' \<in> set (drop 2 (file_lines ?text))"
    by (simp add: file_lines_def)
  have 2: "py_strip ''(0, 0, 3.5)\<newline>'' \<noteq> []"
    by (simp add: py_strip_def strip_with_def isspace_def)
  have t: "py_split (butlast (tl (py_strip ''(0, 0, 3.5)\<newline>''))) CHR '',''
             = [''0'', '' 0'', '' 3.5'']"
    by (simp add: py_strip_def strip_with_def isspace_def py_split_def)
  have 3: "2 < length (py_split (butlast (tl (py_strip ''(0, 0, 3.5)\<newline>''))) CHR '','')"
    by (simp add: t)
  have 4: "\<not> int_literal (py_split (butlast (tl (py_strip ''(0, 0, 3.5)\<newline>''))) CHR '','' ! 2)"
    by (simp add: t) (simp add: eval_defs)
  show ?thesis
    using non_integer_value_rejected [OF 1 2 3 4, of "[]"] .
qed

end
